theory Spec2Isabelle
  imports Complex_Main "HOL-Library.Log_Nat"
begin

section \<open>The cross-validation result object\<close>

text \<open>
  Both notebooks (random forests, boosting) define the same helper:
  \<^verbatim>\<open>
  def print_results(results):
      print('Best params: {}\n'.format(results.best_params_))

      means = results.cv_results_['mean_test_score']
      stds = results.cv_results_['std_test_score']
      for mean, std, params in zip(means, stds, results.cv_results_['params']):
          print('{} (+/-{}) for {}'.format(round(mean, 3), round(std * 2, 3), params))
  \<close>
  The argument is a fitted grid search. The helper reads its attribute \<open>best_params_\<close>
  and three entries of its dictionary \<open>cv_results_\<close>; the notebooks later read
  \<open>best_estimator_\<close>. The record types hold exactly these (a name cannot end in an
  underscore here, so the fields drop the trailing one). The type of a score
  (\<open>'s\<close>, a floating-point number in the notebooks), of a configuration (\<open>'p\<close>) and
  of an estimator (\<open>'e\<close>) are left open.
\<close>

record ('p, 's) cv_results_dict =
  mean_test_score :: "'s list"
  std_test_score :: "'s list"
  params :: "'p list"

record ('p, 's, 'e) grid_search_cv =
  best_params :: 'p
  best_estimator :: 'e
  cv_results :: "('p, 's) cv_results_dict"

section \<open>Standard output\<close>

text \<open>
  Standard output is the list of the texts printed so far, one entry per call of
  \<open>print\<close>, oldest first. \<open>print\<close> ends each text with a line break, so each entry
  starts a line of its own.
\<close>

type_synonym stdout = "string list"

definition print :: "string \<Rightarrow> stdout \<Rightarrow> stdout" where
  "print s out = out @ [s]"

section \<open>The results-formatting helper\<close>

text \<open>
  Python's \<open>round\<close> and \<open>str\<close> (which \<open>'{}'.format\<close> applies to each argument) are
  built-ins of the language: \<open>rnd\<close> stands for \<open>round\<close>, \<open>strs\<close> for \<open>str\<close> on a
  score and \<open>strp\<close> for \<open>str\<close> on a configuration dictionary.
\<close>

definition best_line :: "('p \<Rightarrow> string) \<Rightarrow> 'p \<Rightarrow> string" where
  "best_line strp bp = ''Best params: '' @ strp bp @ [CHR 0x0A]"

definition trial_line ::
  "('s::{times,numeral} \<Rightarrow> nat \<Rightarrow> 's) \<Rightarrow> ('s \<Rightarrow> string) \<Rightarrow> ('p \<Rightarrow> string) \<Rightarrow> 's \<Rightarrow> 's \<Rightarrow> 'p \<Rightarrow> string" where
  "trial_line rnd strs strp mean std prm =
     strs (rnd mean 3) @ '' (+/-'' @ strs (rnd (std * 2) 3) @ '') for '' @ strp prm"

text \<open>The \<open>for\<close> loop over the zipped triples: one \<open>print\<close> per triple, in order.\<close>

fun print_trials ::
  "('s::{times,numeral} \<Rightarrow> nat \<Rightarrow> 's) \<Rightarrow> ('s \<Rightarrow> string) \<Rightarrow> ('p \<Rightarrow> string) \<Rightarrow>
     ('s \<times> 's \<times> 'p) list \<Rightarrow> stdout \<Rightarrow> stdout" where
  "print_trials rnd strs strp [] out = out"
| "print_trials rnd strs strp ((mean, std, prm) # rest) out =
     print_trials rnd strs strp rest (print (trial_line rnd strs strp mean std prm) out)"

text \<open>
  Python's \<open>zip\<close> of three sequences stops at the end of the shortest one, as the
  nested \<open>zip\<close> of lists does.
\<close>

definition print_results ::
  "('s::{times,numeral} \<Rightarrow> nat \<Rightarrow> 's) \<Rightarrow> ('s \<Rightarrow> string) \<Rightarrow> ('p \<Rightarrow> string) \<Rightarrow>
     ('p, 's, 'e) grid_search_cv \<Rightarrow> stdout \<Rightarrow> stdout" where
  "print_results rnd strs strp results out =
     (let out1 = print (best_line strp (best_params results)) out;
          means = mean_test_score (cv_results results);
          stds = std_test_score (cv_results results)
      in print_trials rnd strs strp (zip means (zip stds (params (cv_results results)))) out1)"

section \<open>Instances of the built-ins\<close>

text \<open>
  The theorems about \<open>print_results\<close> that leave \<open>rnd\<close>, \<open>strs\<close> and \<open>strp\<close> open hold
  for every rounding and every way of printing. To run the helper, this section gives
  instances. A score is a rational number: the exact value of the floating-point
  number the notebook holds. A configuration is a dictionary from hyperparameter names
  to integers or \<open>None\<close> (the values of the random-forest grid), kept as an association
  list in the order of its keys.
\<close>

datatype pyval = PyInt int | PyNone

type_synonym config = "(string \<times> pyval) list"

definition digit :: "nat \<Rightarrow> char" where
  "digit d = ''0123456789'' ! d"

fun str_nat :: "nat \<Rightarrow> string" where
  "str_nat n = (if n < 10 then [digit n] else str_nat (n div 10) @ [digit (n mod 10)])"

definition str_int :: "int \<Rightarrow> string" where
  "str_int i = (if i < 0 then ''-'' @ str_nat (nat (- i)) else str_nat (nat i))"

definition str_frac3 :: "nat \<Rightarrow> string" where
  "str_frac3 k =
     (case dropWhile (\<lambda>c. c = CHR ''0'')
             [digit (k mod 10), digit (k div 10 mod 10), digit (k div 100 mod 10)] of
        [] \<Rightarrow> ''0''
      | ds \<Rightarrow> rev ds)"

text \<open>
  \<open>str_float\<close> writes a number that has at most three decimals and is below
  \<open>10 ^ 16\<close> the way Python writes the floating-point number nearest to it
  (\<open>0.82\<close>, \<open>0.8\<close>, \<open>1.0\<close>): the shortest decimal that denotes it, with at least one
  digit after the point. The results of rounding to three decimals are such numbers.
  (Rounding a negative number to zero gives Python's \<open>-0.0\<close>; accuracies and
  deviations are not negative, and the sign of zero is not modelled.)
\<close>

definition str_float :: "rat \<Rightarrow> string" where
  "str_float x =
     (let k = nat \<lfloor>\<bar>x\<bar> * 1000\<rfloor>
      in (if x < 0 then ''-'' else []) @ str_nat (k div 1000) @ ''.'' @ str_frac3 (k mod 1000))"

text \<open>Rounding to the nearest integer, to the even one of two equally near.\<close>

definition rint :: "rat \<Rightarrow> int" where
  "rint x =
     (let f = \<lfloor>x\<rfloor>; r = x - of_int f
      in if r < 1 / 2 then f else if 1 / 2 < r then f + 1 else if even f then f else f + 1)"

text \<open>
  \<open>py_round\<close> is rounding as the spec words it, "straightforward rounding of the
  underlying float to 3 decimals": the multiple of \<open>10 ^ - ndigits\<close> nearest to the
  value itself (the even one of two equally near). It is not what the helper's call
  \<open>round(mean, 3)\<close> computes on every input; \<open>np_round\<close> below is. The two agree on
  every value of the recorded tables.
\<close>

definition py_round :: "rat \<Rightarrow> nat \<Rightarrow> rat" where
  "py_round x ndigits = of_int (rint (x * 10 ^ ndigits)) / 10 ^ ndigits"

text \<open>
  The entries of \<open>cv_results_['mean_test_score']\<close> and \<open>['std_test_score']\<close> are
  \<open>numpy.float64\<close> numbers, and \<open>round\<close> on such a number is numpy's: it multiplies by
  \<open>10 ^ decimals\<close>, rounds the product to the nearest integer (\<open>rint\<close>) and divides by
  \<open>10 ^ decimals\<close>, each step in double precision. \<open>ilog2 x\<close> is the exponent of the
  leading bit of a positive \<open>x\<close>, and \<open>double_of\<close> rounds a number to the nearest one
  with a significand of 53 bits, to the even significand of two equally near (the
  exponent range of the format is not modelled: scores are accuracies and bands, far
  from overflow and underflow).

  \<open>np_round x decimals\<close> is the decimal number \<open>k / 10 ^ decimals\<close> with \<open>k\<close> the
  integer numpy rounds the product to. numpy returns the double nearest to that
  decimal, and Python prints a double as the shortest decimal that denotes it, which is
  \<open>k / 10 ^ decimals\<close> again; so the model keeps the decimal. Doubling a standard
  deviation (\<open>std * 2\<close>) is exact in double precision.
\<close>

definition ilog2 :: "rat \<Rightarrow> int" where
  "ilog2 x = (if 1 \<le> x then bitlen \<lfloor>x\<rfloor> - 1 else - bitlen (\<lceil>1 / x\<rceil> - 1))"

definition double_of :: "rat \<Rightarrow> rat" where
  "double_of x =
     (if x = 0 then 0
      else let e = ilog2 \<bar>x\<bar> - 52 in of_int (rint (x / 2 powi e)) * 2 powi e)"

definition np_round :: "rat \<Rightarrow> nat \<Rightarrow> rat" where
  "np_round x decimals = of_int (rint (double_of (x * 10 ^ decimals))) / 10 ^ decimals"

fun str_pyval :: "pyval \<Rightarrow> string" where
  "str_pyval (PyInt i) = str_int i"
| "str_pyval PyNone = ''None''"

fun str_items :: "config \<Rightarrow> string" where
  "str_items [] = []"
| "str_items [(k, v)] = [CHR 0x27] @ k @ [CHR 0x27] @ '': '' @ str_pyval v"
| "str_items ((k, v) # kvs) =
     [CHR 0x27] @ k @ [CHR 0x27] @ '': '' @ str_pyval v @ '', '' @ str_items kvs"

definition str_dict :: "config \<Rightarrow> string" where
  "str_dict c = ''{'' @ str_items c @ ''}''"

text \<open>
  A result with two trials whose scores are doubles that rounding changes: the means
  are the doubles nearest to 147/178 and to 0.8145, the standard deviations the double
  nearest to 0.0413 and 1/16.
\<close>

definition two_trials :: "(config, rat, unit) grid_search_cv" where
  "two_trials =
     \<lparr>best_params = [(''max_depth'', PyInt 2)],
      best_estimator = (),
      cv_results =
        \<lparr>mean_test_score =
           [7438529721611943 / 9007199254740992, 3668181896493269 / 4503599627370496],
         std_test_score = [371997329220803 / 9007199254740992, 1 / 16],
         params = [[(''max_depth'', PyInt 2)], [(''max_depth'', PyInt 4)]]\<rparr>\<rparr>"

section \<open>The recorded random-forest run\<close>

text \<open>
  The random-forest notebook keeps the output of its run of
  \<^verbatim>\<open>
  parameters = {
      'n_estimators': [5, 50, 250],
      'max_depth': [2, 4, 8, 16, 32, None]
  }
  cv = GridSearchCV(rf, parameters, cv=5)
  cv.fit(tr_features, tr_labels.values.ravel())
  print_results(cv)
  \<close>
  eighteen trials, \<open>max_depth\<close> varying slowest. \<open>rf_cv\<close> is that fitted search as
  far as the output shows it: the means to the three decimals printed, the standard
  deviations as half the printed bands. The estimator itself is not recorded.
\<close>

definition rf_params :: "config list" where
  "rf_params =
     concat (map (\<lambda>d. map (\<lambda>n. [(''max_depth'', d), (''n_estimators'', PyInt n)]) [5, 50, 250])
       [PyInt 2, PyInt 4, PyInt 8, PyInt 16, PyInt 32, PyNone])"

definition rf_means :: "rat list" where
  "rf_means =
     [805 / 1000, 811 / 1000, 802 / 1000, 805 / 1000, 817 / 1000, 826 / 1000,
      820 / 1000, 817 / 1000, 818 / 1000, 805 / 1000, 813 / 1000, 809 / 1000,
      800 / 1000, 815 / 1000, 811 / 1000, 815 / 1000, 815 / 1000, 809 / 1000]"

definition rf_stds :: "rat list" where
  "rf_stds =
     [146 / 2000, 82 / 2000, 131 / 2000, 69 / 2000, 83 / 2000, 104 / 2000,
      44 / 2000, 58 / 2000, 65 / 2000, 44 / 2000, 16 / 2000, 34 / 2000,
      93 / 2000, 46 / 2000, 21 / 2000, 37 / 2000, 38 / 2000, 25 / 2000]"

definition rf_cv :: "(config, rat, unit) grid_search_cv" where
  "rf_cv =
     \<lparr>best_params = [(''max_depth'', PyInt 4), (''n_estimators'', PyInt 250)],
      best_estimator = (),
      cv_results =
        \<lparr>mean_test_score = rf_means, std_test_score = rf_stds, params = rf_params\<rparr>\<rparr>"

section \<open>The grid-search driver\<close>

text \<open>
  The notebooks hand the search to \<open>GridSearchCV.fit\<close> of scikit-learn, which the
  repository does not contain. The three definitions of this section are modelled from
  the spec. \<open>cv_score\<close> gives a configuration's mean and standard deviation of
  accuracy over the folds, \<open>refit\<close> the estimator fitted with a configuration on the
  whole training partition; both are the library's work and stay parameters.
\<close>

datatype error = EmptyGrid

text \<open>
  Modelled from the spec: the scan behind "first-seen wins", the tie-break the spec
  calls "an artifact of using a fixed iteration order". One pass over the mean scores
  in enumeration order keeps the best seen so far and replaces it only by a strictly
  better one: \<open>i\<close> is the index of the next score, \<open>best\<close> the index kept and
  \<open>best_score\<close> its score.
\<close>

fun argmax_loop :: "'s::linorder list \<Rightarrow> nat \<Rightarrow> nat \<Rightarrow> 's \<Rightarrow> nat" where
  "argmax_loop [] i best best_score = best"
| "argmax_loop (x # xs) i best best_score =
     (if best_score < x then argmax_loop xs (Suc i) i x
      else argmax_loop xs (Suc i) best best_score)"

text \<open>
  Modelled from the spec: the index of the winning configuration, "the one with the
  maximum mean fold-accuracy; ties are broken by whatever deterministic ordering the
  enumeration produced (first-seen wins)". There is none when nothing was enumerated.
\<close>

definition best_index :: "'s::linorder list \<Rightarrow> nat option" where
  "best_index means = (case means of [] \<Rightarrow> None | x # xs \<Rightarrow> Some (argmax_loop xs 1 0 x))"

text \<open>
  Modelled from the spec: the grid-search driver, "a pure function taking a finite
  sequence of configuration values and a scoring function, returning the arg-max
  configuration plus the full scored sequence in original order", the winner reported
  "along with its refit-on-full-training-data estimator"; "input grid must be
  non-empty", so a search over no configuration fails.
\<close>

definition grid_search ::
  "('p \<Rightarrow> 's::linorder \<times> 's) \<Rightarrow> ('p \<Rightarrow> 'e) \<Rightarrow> 'p list \<Rightarrow> error + ('p, 's, 'e) grid_search_cv" where
  "grid_search cv_score refit configs =
     (let scored = map cv_score configs; means = map fst scored; stds = map snd scored
      in case best_index means of
           None \<Rightarrow> Inl EmptyGrid
         | Some b \<Rightarrow>
             Inr \<lparr>best_params = configs ! b,
                  best_estimator = refit (configs ! b),
                  cv_results =
                    \<lparr>mean_test_score = means, std_test_score = stds, params = configs\<rparr>\<rparr>)"

text \<open>
  The scores of the recorded random-forest run as a scoring function: \<open>rf_score\<close>
  looks a configuration up in the recorded table.
\<close>

definition rf_score :: "config \<Rightarrow> rat \<times> rat" where
  "rf_score c =
     (case map_of (zip rf_params (zip rf_means rf_stds)) c of None \<Rightarrow> (0, 0) | Some ms \<Rightarrow> ms)"

text \<open>
  Six trials of the boosting notebook's recorded run (learning rates 0.01 and 0.1 at
  depth 3), with the means and bands its output shows; two of them show the highest
  mean, 0.841, and the run reports the earlier of the two,
  \<open>{'learning_rate': 0.01, 'max_depth': 3, 'n_estimators': 500}\<close>, as its best
  parameters. A configuration of this grid is written as the triple of its learning
  rate, maximal depth and number of estimators. \<open>gb_score\<close> looks a configuration up
  in the table.
\<close>

definition gb_configs :: "(rat \<times> int \<times> int) list" where
  "gb_configs = concat (map (\<lambda>l. map (\<lambda>n. (l, 3, n)) [50, 250, 500]) [1 / 100, 1 / 10])"

definition gb_table :: "((rat \<times> int \<times> int) \<times> rat \<times> rat) list" where
  "gb_table =
     zip gb_configs
       [(811 / 1000, 69 / 2000), (830 / 1000, 74 / 2000), (841 / 1000, 77 / 2000),
        (841 / 1000, 70 / 2000), (826 / 1000, 32 / 2000), (809 / 1000, 40 / 2000)]"

definition gb_score :: "rat \<times> int \<times> int \<Rightarrow> rat \<times> rat" where
  "gb_score c = (case map_of gb_table c of None \<Rightarrow> (0, 0) | Some ms \<Rightarrow> ms)"

section \<open>What the helper prints\<close>

lemma print_trials_append:
  "print_trials rnd strs strp ts out =
     out @ map (\<lambda>(m, s, p). trial_line rnd strs strp m s p) ts"
  by (induction ts arbitrary: out) (auto simp: print_def)

lemma print_results_output:
  "print_results rnd strs strp r out =
     out @ best_line strp (best_params r) #
       map (\<lambda>(m, s, p). trial_line rnd strs strp m s p)
         (zip (mean_test_score (cv_results r))
            (zip (std_test_score (cv_results r)) (params (cv_results r))))"
  by (simp add: print_results_def print_trials_append print_def)

lemma nth_print_results_header:
  "print_results rnd strs strp r out ! length out = best_line strp (best_params r)"
  by (simp add: print_results_output nth_append)

lemma length_print_results:
  "length (print_results rnd strs strp r out) =
     length out + 1 + min (length (mean_test_score (cv_results r)))
       (min (length (std_test_score (cv_results r))) (length (params (cv_results r))))"
  by (simp add: print_results_output)

lemma nth_print_results_trial:
  assumes "i < length (mean_test_score (cv_results r))"
    and "i < length (std_test_score (cv_results r))"
    and "i < length (params (cv_results r))"
  shows "print_results rnd strs strp r out ! (length out + 1 + i) =
     trial_line rnd strs strp (mean_test_score (cv_results r) ! i)
       (std_test_score (cv_results r) ! i) (params (cv_results r) ! i)"
  using assms by (simp add: print_results_output nth_append)

lemma zip3_eq_map_upt:
  assumes "n = min (length xs) (min (length ys) (length zs))"
  shows "map f (zip xs (zip ys zs)) = map (\<lambda>i. f (xs ! i, ys ! i, zs ! i)) [0..<n]"
  using assms by (auto intro!: nth_equalityI)

text \<open>
  On the recorded random-forest result the helper gives the text the notebook recorded,
  line for line.
\<close>

lemma print_results_rf_cv:
  "print_results py_round str_float str_dict rf_cv [] =
     [''Best params: {'max_depth': 4, 'n_estimators': 250}'' @ [CHR 0x0A],
      ''0.805 (+/-0.146) for {'max_depth': 2, 'n_estimators': 5}'',
      ''0.811 (+/-0.082) for {'max_depth': 2, 'n_estimators': 50}'',
      ''0.802 (+/-0.131) for {'max_depth': 2, 'n_estimators': 250}'',
      ''0.805 (+/-0.069) for {'max_depth': 4, 'n_estimators': 5}'',
      ''0.817 (+/-0.083) for {'max_depth': 4, 'n_estimators': 50}'',
      ''0.826 (+/-0.104) for {'max_depth': 4, 'n_estimators': 250}'',
      ''0.82 (+/-0.044) for {'max_depth': 8, 'n_estimators': 5}'',
      ''0.817 (+/-0.058) for {'max_depth': 8, 'n_estimators': 50}'',
      ''0.818 (+/-0.065) for {'max_depth': 8, 'n_estimators': 250}'',
      ''0.805 (+/-0.044) for {'max_depth': 16, 'n_estimators': 5}'',
      ''0.813 (+/-0.016) for {'max_depth': 16, 'n_estimators': 50}'',
      ''0.809 (+/-0.034) for {'max_depth': 16, 'n_estimators': 250}'',
      ''0.8 (+/-0.093) for {'max_depth': 32, 'n_estimators': 5}'',
      ''0.815 (+/-0.046) for {'max_depth': 32, 'n_estimators': 50}'',
      ''0.811 (+/-0.021) for {'max_depth': 32, 'n_estimators': 250}'',
      ''0.815 (+/-0.037) for {'max_depth': None, 'n_estimators': 5}'',
      ''0.815 (+/-0.038) for {'max_depth': None, 'n_estimators': 50}'',
      ''0.809 (+/-0.025) for {'max_depth': None, 'n_estimators': 250}'']"
  by code_simp

section \<open>The two roundings\<close>

text \<open>
  \<open>py_round\<close>, the exact rounding, is monotone and within half a unit of the last
  digit kept.
\<close>

lemma rint_bounds: "\<lfloor>x\<rfloor> \<le> rint x \<and> rint x \<le> \<lfloor>x\<rfloor> + 1"
  by (simp add: rint_def Let_def)

lemma rint_mono:
  assumes "x \<le> y"
  shows "rint x \<le> rint y"
proof (cases "\<lfloor>x\<rfloor> = \<lfloor>y\<rfloor>")
  case True
  then show ?thesis using assms by (auto simp: rint_def Let_def)
next
  case False
  then have "\<lfloor>x\<rfloor> + 1 \<le> \<lfloor>y\<rfloor>"
    using floor_mono [OF assms] by linarith
  then show ?thesis
    using rint_bounds [of x] rint_bounds [of y] by linarith
qed

lemma py_round_mono: "x \<le> y \<Longrightarrow> py_round x n \<le> py_round y n"
  by (simp add: py_round_def divide_right_mono rint_mono mult_right_mono)

lemma rint_near: "\<bar>of_int (rint x) - x\<bar> \<le> 1 / 2"
  by (auto simp: rint_def Let_def abs_if) linarith+

lemma py_round_near: "\<bar>py_round x n - x\<bar> \<le> 1 / (2 * 10 ^ n)"
proof -
  have "\<bar>py_round x n - x\<bar> = \<bar>of_int (rint (x * 10 ^ n)) - x * 10 ^ n\<bar> / 10 ^ n"
    by (simp add: py_round_def field_simps flip: abs_mult)
  also have "\<dots> \<le> (1 / 2) / 10 ^ n"
    by (intro divide_right_mono rint_near) simp
  finally show ?thesis by simp
qed

text \<open>
  \<open>double_of\<close> keeps 53 significant bits: \<open>ilog2\<close> finds the leading bit, and the
  result is within half a unit of the last bit kept, a relative error of at most
  \<open>2 ^ - 53\<close>.
\<close>

lemma ilog2_lower:
  assumes "0 < x"
  shows "2 powi ilog2 x \<le> x"
proof (cases "1 \<le> x")
  case True
  define n where "n = \<lfloor>x\<rfloor>"
  have n: "0 < n" using True by (simp add: n_def)
  have b: "1 \<le> bitlen n" using n by (simp add: bitlen_alt_def)
  have "(2::int) ^ nat (bitlen n - 1) \<le> n"
    using bitlen_bounds [OF n] by simp
  then have "(of_int ((2::int) ^ nat (bitlen n - 1)) :: rat) \<le> of_int n"
    by (simp only: of_int_le_iff)
  then have "(2::rat) ^ nat (bitlen n - 1) \<le> of_int n" by simp
  moreover have "of_int n \<le> x" by (simp add: n_def)
  ultimately have "(2::rat) ^ nat (bitlen n - 1) \<le> x" by linarith
  then show ?thesis
    using True b by (simp add: ilog2_def n_def power_int_def)
next
  case False
  define c where "c = \<lceil>1 / x\<rceil>"
  have inv: "1 < 1 / x" using False assms by simp
  then have c2: "1 < c" by (simp add: c_def less_ceiling_iff)
  then have c1: "0 < c - 1" by simp
  define n where "n = bitlen (c - 1)"
  have "c - 1 < 2 ^ nat n"
    using bitlen_bounds [OF c1] by (simp add: n_def)
  then have "c \<le> 2 ^ nat n" by simp
  then have "(of_int c :: rat) \<le> of_int (2 ^ nat n)"
    by (simp only: of_int_le_iff)
  then have "(of_int c :: rat) \<le> 2 ^ nat n" by simp
  moreover have "1 / x \<le> of_int c" by (simp add: c_def)
  ultimately have "1 / x \<le> 2 ^ nat n" by linarith
  then have "1 / 2 ^ nat n \<le> x"
    using assms by (simp add: field_simps)
  moreover have "1 \<le> n" using c1 by (simp add: n_def bitlen_alt_def)
  ultimately show ?thesis
    using False by (simp add: ilog2_def c_def n_def power_int_def field_simps)
qed

lemma ilog2_upper:
  assumes "0 < x"
  shows "x < 2 powi (ilog2 x + 1)"
proof (cases "1 \<le> x")
  case True
  define n where "n = \<lfloor>x\<rfloor>"
  have n: "0 < n" using True by (simp add: n_def)
  have b: "1 \<le> bitlen n" using n by (simp add: bitlen_alt_def)
  have "n < (2::int) ^ nat (bitlen n)"
    using bitlen_bounds [OF n] by simp
  then have "n + 1 \<le> (2::int) ^ nat (bitlen n)" by simp
  then have "(of_int (n + 1) :: rat) \<le> of_int ((2::int) ^ nat (bitlen n))"
    by (simp only: of_int_le_iff)
  then have "(of_int (n + 1) :: rat) \<le> 2 ^ nat (bitlen n)" by simp
  moreover have "x < of_int (n + 1)" unfolding n_def by simp linarith
  ultimately have "x < (2::rat) ^ nat (bitlen n)" by linarith
  then show ?thesis
    using True b by (simp add: ilog2_def n_def power_int_def)
next
  case False
  define c where "c = \<lceil>1 / x\<rceil>"
  have inv: "1 < 1 / x" using False assms by simp
  then have c2: "1 < c" by (simp add: c_def less_ceiling_iff)
  then have c1: "0 < c - 1" by simp
  define n where "n = bitlen (c - 1)"
  have n1: "1 \<le> n" using c1 by (simp add: n_def bitlen_alt_def)
  have "2 ^ nat (n - 1) \<le> c - 1"
    using bitlen_bounds [OF c1] by (simp add: n_def)
  then have "(of_int (2 ^ nat (n - 1)) :: rat) \<le> of_int (c - 1)"
    by (simp only: of_int_le_iff)
  then have "(2::rat) ^ nat (n - 1) \<le> of_int c - 1" by simp
  moreover have "(of_int c :: rat) - 1 < 1 / x"
    unfolding c_def by linarith
  ultimately have "2 ^ nat (n - 1) < 1 / x" by linarith
  then have "x < 1 / 2 ^ nat (n - 1)"
    using assms by (simp add: field_simps)
  moreover have "2 powi (- n + 1) = (1::rat) / 2 ^ nat (n - 1)"
  proof (cases "n = 1")
    case True
    then show ?thesis by simp
  next
    case False
    with n1 have "- n + 1 < 0" by simp
    moreover have "nat (n - 1) = nat (- (- n + 1))" by simp
    ultimately show ?thesis
      by (simp add: power_int_def field_simps)
  qed
  ultimately show ?thesis
    using False by (simp add: ilog2_def c_def n_def)
qed

lemma double_of_error: "\<bar>double_of x - x\<bar> \<le> \<bar>x\<bar> / 2 ^ 53"
proof (cases "x = 0")
  case True
  then show ?thesis by (simp add: double_of_def)
next
  case False
  define p :: rat where "p = 2 powi (ilog2 \<bar>x\<bar> - 52)"
  have p: "0 < p" by (simp add: p_def)
  have "p * 2 ^ 52 = 2 powi ilog2 \<bar>x\<bar>"
    by (simp add: p_def power_int_diff)
  also have "\<dots> \<le> \<bar>x\<bar>"
    using False by (intro ilog2_lower) simp
  finally have px: "p * 2 ^ 52 \<le> \<bar>x\<bar>" .
  have "double_of x - x = (of_int (rint (x / p)) - x / p) * p"
    using False p by (simp add: double_of_def p_def Let_def field_simps)
  then have "\<bar>double_of x - x\<bar> = \<bar>of_int (rint (x / p)) - x / p\<bar> * p"
    using p by (simp add: abs_mult)
  also have "\<dots> \<le> (1 / 2) * p"
    using p by (intro mult_right_mono rint_near) simp
  also have "\<dots> \<le> \<bar>x\<bar> / 2 ^ 53"
    using px by simp
  finally show ?thesis .
qed

lemma np_round_error: "\<bar>np_round x n - x\<bar> \<le> 1 / (2 * 10 ^ n) + \<bar>x\<bar> / 2 ^ 53"
proof -
  define y where "y = x * 10 ^ n"
  define z where "z = double_of y"
  have "\<bar>of_int (rint z) - y\<bar> \<le> \<bar>of_int (rint z) - z\<bar> + \<bar>z - y\<bar>"
    by simp
  also have "\<dots> \<le> 1 / 2 + \<bar>y\<bar> / 2 ^ 53"
    using rint_near [of z] double_of_error [of y] by (simp add: z_def)
  finally have e: "\<bar>of_int (rint z) - y\<bar> \<le> 1 / 2 + \<bar>y\<bar> / 2 ^ 53" .
  have "np_round x n - x = (of_int (rint z) - y) / 10 ^ n"
    by (simp add: np_round_def y_def z_def field_simps)
  then have "\<bar>np_round x n - x\<bar> = \<bar>of_int (rint z) - y\<bar> / 10 ^ n"
    by simp
  also have "\<dots> \<le> (1 / 2 + \<bar>y\<bar> / 2 ^ 53) / 10 ^ n"
    using e by (intro divide_right_mono) simp_all
  also have "\<dots> = 1 / (2 * 10 ^ n) + \<bar>x\<bar> / 2 ^ 53"
    by (simp add: y_def abs_mult field_simps)
  finally show ?thesis .
qed

lemma np_round_decimals: "np_round x n * 10 ^ n \<in> \<int>"
  by (simp add: np_round_def)

lemma rint_between:
  assumes "of_int k - 1 / 2 < z" and "z < of_int k + 1 / 2"
  shows "rint z = k"
proof -
  have "\<lfloor>z\<rfloor> = k \<or> \<lfloor>z\<rfloor> = k - 1"
    using assms by (simp add: floor_eq_iff) linarith
  then show ?thesis
  proof
    assume f: "\<lfloor>z\<rfloor> = k"
    then show ?thesis using assms by (simp add: rint_def Let_def)
  next
    assume f: "\<lfloor>z\<rfloor> = k - 1"
    then have "z < of_int k"
      by (metis floor_less_iff less_add_one diff_add_cancel)
    then show ?thesis using assms f by (auto simp: rint_def Let_def)
  qed
qed

lemma rint_stable:
  assumes "\<bar>z - y\<bar> < \<bar>frac y - 1 / 2\<bar>"
  shows "rint z = rint y"
proof -
  define f where "f = \<lfloor>y\<rfloor>"
  have y: "y = of_int f + frac y" by (simp add: frac_def f_def)
  consider "frac y < 1 / 2" | "1 / 2 < frac y" | "frac y = 1 / 2" by linarith
  then show ?thesis
  proof cases
    case 1
    then have "rint y = f" by (simp add: rint_def Let_def frac_def f_def)
    moreover have "rint z = f"
      using assms 1 y frac_ge_0 [of y] by (intro rint_between) linarith+
    ultimately show ?thesis by simp
  next
    case 2
    then have "rint y = f + 1" by (simp add: rint_def Let_def frac_def f_def)
    moreover have "rint z = f + 1"
      using assms 2 y frac_lt_1 [of y] by (intro rint_between) (simp, linarith)+
    ultimately show ?thesis by simp
  next
    case 3
    with assms show ?thesis by simp
  qed
qed

lemma np_round_exact:
  assumes "\<bar>x * 10 ^ n\<bar> / 2 ^ 53 < \<bar>frac (x * 10 ^ n) - 1 / 2\<bar>"
  shows "np_round x n = py_round x n"
proof -
  have "\<bar>double_of (x * 10 ^ n) - x * 10 ^ n\<bar> < \<bar>frac (x * 10 ^ n) - 1 / 2\<bar>"
    using double_of_error [of "x * 10 ^ n"] assms by linarith
  then show ?thesis
    by (simp add: np_round_def py_round_def rint_stable)
qed

text \<open>On a number with no more decimals than are kept the two roundings agree.\<close>

lemma np_round_thousandths:
  assumes "x * 10 ^ n \<in> \<int>" and "\<bar>x * 10 ^ n\<bar> < 2 ^ 52"
  shows "np_round x n = py_round x n"
proof (rule np_round_exact)
  define f where "f = frac (x * 10 ^ n)"
  have "f = 0"
    using assms(1) by (simp add: f_def frac_eq_0_iff)
  then have "\<bar>f - 1 / 2\<bar> = 1 / 2"
    by simp
  moreover have "\<bar>x * 10 ^ n\<bar> / 2 ^ 53 < 1 / 2"
    using assms(2) by simp
  ultimately show "\<bar>x * 10 ^ n\<bar> / 2 ^ 53 < \<bar>frac (x * 10 ^ n) - 1 / 2\<bar>"
    unfolding f_def by linarith
qed

text \<open>
  The helper's output depends on the rounding only through the values it rounds, and
  on the recorded random-forest table the two roundings give the same output.
\<close>

lemma print_results_rnd_cong:
  assumes "\<forall>m\<in>set (mean_test_score (cv_results r)). rnd m 3 = rnd' m 3"
    and "\<forall>s\<in>set (std_test_score (cv_results r)). rnd (s * 2) 3 = rnd' (s * 2) 3"
  shows "print_results rnd strs strp r out = print_results rnd' strs strp r out"
proof -
  have "trial_line rnd strs strp m s p = trial_line rnd' strs strp m s p"
    if "(m, s, p) \<in> set (zip (mean_test_score (cv_results r))
          (zip (std_test_score (cv_results r)) (params (cv_results r))))" for m s p
  proof -
    from that have "m \<in> set (mean_test_score (cv_results r))"
      by (rule set_zip_leftD)
    moreover from that have "(s, p) \<in> set (zip (std_test_score (cv_results r)) (params (cv_results r)))"
      by (rule set_zip_rightD)
    then have "s \<in> set (std_test_score (cv_results r))"
      by (rule set_zip_leftD)
    ultimately show ?thesis
      using assms by (simp add: trial_line_def)
  qed
  then show ?thesis
    by (auto simp: print_results_output)
qed

lemma np_round_rf_cv:
  "print_results np_round str_float str_dict rf_cv [] =
     print_results py_round str_float str_dict rf_cv []"
proof (rule print_results_rnd_cong)
  show "\<forall>m\<in>set (mean_test_score (cv_results rf_cv)). np_round m 3 = py_round m 3"
    by (auto simp: rf_cv_def rf_means_def intro!: np_round_thousandths)
  show "\<forall>s\<in>set (std_test_score (cv_results rf_cv)). np_round (s * 2) 3 = py_round (s * 2) 3"
    by (auto simp: rf_cv_def rf_stds_def intro!: np_round_thousandths)
qed

section \<open>What the grid search selects\<close>

lemma argmax_loop_invariant:
  assumes "best < length pre"
    and "pre ! best = best_score"
    and "\<forall>x\<in>set pre. x \<le> best_score"
    and "\<forall>k<best. pre ! k < best_score"
    and "i = length pre"
  shows "argmax_loop xs i best best_score < length (pre @ xs)
         \<and> (\<forall>x\<in>set (pre @ xs). x \<le> (pre @ xs) ! argmax_loop xs i best best_score)
         \<and> (\<forall>k<argmax_loop xs i best best_score.
               (pre @ xs) ! k < (pre @ xs) ! argmax_loop xs i best best_score)"
  using assms
proof (induction xs arbitrary: pre i best best_score)
  case Nil
  then show ?case by simp
next
  case (Cons x xs)
  show ?case
  proof (cases "best_score < x")
    case True
    have "argmax_loop xs (Suc i) i x < length ((pre @ [x]) @ xs)
         \<and> (\<forall>y\<in>set ((pre @ [x]) @ xs). y \<le> ((pre @ [x]) @ xs) ! argmax_loop xs (Suc i) i x)
         \<and> (\<forall>k<argmax_loop xs (Suc i) i x.
               ((pre @ [x]) @ xs) ! k < ((pre @ [x]) @ xs) ! argmax_loop xs (Suc i) i x)"
    proof (rule Cons.IH)
      show "i < length (pre @ [x])" using Cons.prems by simp
      show "(pre @ [x]) ! i = x" using Cons.prems by simp
      show "\<forall>y\<in>set (pre @ [x]). y \<le> x" using Cons.prems True by fastforce
      show "\<forall>k<i. (pre @ [x]) ! k < x"
        using Cons.prems True by (auto simp: nth_append intro: le_less_trans)
      show "Suc i = length (pre @ [x])" using Cons.prems by simp
    qed
    with True show ?thesis by simp
  next
    case False
    have "argmax_loop xs (Suc i) best best_score < length ((pre @ [x]) @ xs)
         \<and> (\<forall>y\<in>set ((pre @ [x]) @ xs).
               y \<le> ((pre @ [x]) @ xs) ! argmax_loop xs (Suc i) best best_score)
         \<and> (\<forall>k<argmax_loop xs (Suc i) best best_score.
               ((pre @ [x]) @ xs) ! k
                 < ((pre @ [x]) @ xs) ! argmax_loop xs (Suc i) best best_score)"
    proof (rule Cons.IH)
      show "best < length (pre @ [x])" using Cons.prems by simp
      show "(pre @ [x]) ! best = best_score" using Cons.prems by (simp add: nth_append)
      show "\<forall>y\<in>set (pre @ [x]). y \<le> best_score" using Cons.prems False by auto
      show "\<forall>k<best. (pre @ [x]) ! k < best_score"
        using Cons.prems by (simp add: nth_append)
      show "Suc i = length (pre @ [x])" using Cons.prems by simp
    qed
    with False show ?thesis by simp
  qed
qed

lemma best_index_None: "best_index means = None \<longleftrightarrow> means = []"
  by (simp add: best_index_def split: list.splits)

lemma best_index_Some:
  assumes "best_index means = Some b"
  shows "b < length means"
    and "means ! b = Max (set means)"
    and "\<And>k. k < b \<Longrightarrow> means ! k < means ! b"
proof -
  from assms obtain x xs where means: "means = x # xs" and b: "b = argmax_loop xs 1 0 x"
    by (auto simp: best_index_def split: list.splits)
  have inv: "b < length means \<and> (\<forall>y\<in>set means. y \<le> means ! b) \<and> (\<forall>k<b. means ! k < means ! b)"
    using argmax_loop_invariant [of 0 "[x]" x 1 xs] unfolding means b by simp
  then show "b < length means" by simp
  from inv show "\<And>k. k < b \<Longrightarrow> means ! k < means ! b" by simp
  from inv have "means ! b \<in> set means" and "\<forall>y\<in>set means. y \<le> means ! b" by simp_all
  then show "means ! b = Max (set means)"
    by (intro Max_eqI [symmetric]) auto
qed

lemma grid_search_Inr:
  assumes "grid_search cv_score refit configs = Inr res"
  shows "\<exists>b. best_index (map (fst \<circ> cv_score) configs) = Some b
           \<and> best_params res = configs ! b
           \<and> best_estimator res = refit (configs ! b)
           \<and> mean_test_score (cv_results res) = map (fst \<circ> cv_score) configs
           \<and> std_test_score (cv_results res) = map (snd \<circ> cv_score) configs
           \<and> params (cv_results res) = configs"
  using assms by (auto simp: grid_search_def Let_def split: option.splits)

lemma grid_search_Inl: "grid_search cv_score refit configs = Inl e \<longleftrightarrow> configs = []"
  by (cases e) (auto simp: grid_search_def Let_def best_index_def split: option.splits list.splits)

section \<open>Claims about the results-formatting helper\<close>

text \<open>
  C2. For a cross-validation result over the \<open>N\<close> configurations that a non-empty
  grid enumerates (\<open>N > 0\<close>; the result holds one mean, one standard deviation and
  one configuration per trial), \<open>print_results\<close> adds to the
  output exactly one line stating the best configuration, and after it exactly \<open>N\<close>
  trial lines, one per configuration. (The text of the first line ends in a line break
  of its own, so an empty line follows it on the screen.)
\<close>

theorem print_results_header_and_N_trial_lines:
  assumes "0 < N"
    and "length (params (cv_results r)) = N"
    and "length (mean_test_score (cv_results r)) = N"
    and "length (std_test_score (cv_results r)) = N"
  shows "print_results rnd strs strp r out =
           out @ best_line strp (best_params r) #
             map (\<lambda>i. trial_line rnd strs strp (mean_test_score (cv_results r) ! i)
                        (std_test_score (cv_results r) ! i) (params (cv_results r) ! i))
               [0..<N]
         \<and> length (print_results rnd strs strp r out) = length out + 1 + N"
proof -
  have "map (\<lambda>(m, s, p). trial_line rnd strs strp m s p)
          (zip (mean_test_score (cv_results r))
             (zip (std_test_score (cv_results r)) (params (cv_results r)))) =
        map (\<lambda>i. trial_line rnd strs strp (mean_test_score (cv_results r) ! i)
                   (std_test_score (cv_results r) ! i) (params (cv_results r) ! i))
          [0..<N]"
    using assms by (subst zip3_eq_map_upt [where n = N]) simp_all
  then show ?thesis
    using assms by (simp add: print_results_output)
qed

theorem print_results_header_and_N_trial_lines_witness:
  "length (params (cv_results rf_cv)) = 18
   \<and> length (mean_test_score (cv_results rf_cv)) = 18
   \<and> length (std_test_score (cv_results rf_cv)) = 18
   \<and> length (print_results py_round str_float str_dict rf_cv []) = 19
   \<and> hd (print_results py_round str_float str_dict rf_cv []) =
       ''Best params: {'max_depth': 4, 'n_estimators': 250}'' @ [CHR 0x0A]"
proof -
  have p: "length (params (cv_results rf_cv)) = 18"
    by (simp add: rf_cv_def rf_params_def)
  have m: "length (mean_test_score (cv_results rf_cv)) = 18"
    by (simp add: rf_cv_def rf_means_def)
  have s: "length (std_test_score (cv_results rf_cv)) = 18"
    by (simp add: rf_cv_def rf_stds_def)
  have b: "best_line str_dict (best_params rf_cv) =
      ''Best params: {'max_depth': 4, 'n_estimators': 250}'' @ [CHR 0x0A]"
    by code_simp
  have "(0::nat) < 18" by simp
  from print_results_header_and_N_trial_lines [OF this p m s, of py_round str_float str_dict "[]"]
  show ?thesis using p m s b by simp
qed

text \<open>
  C3 (as amended). Every trial line that \<open>print_results\<close> prints (every entry it adds
  after the best-configuration line) shows \<open>round(mean, 3)\<close> of that trial's mean and
  \<open>round(std * 2, 3)\<close> of twice that trial's standard deviation, with no other
  transformation, where \<open>round\<close> is numpy's: the product with 1000, taken in double
  precision, rounded to the nearest integer and divided by 1000. The number shown is a
  multiple of 0.001 at most \<open>0.0005 + 2 ^ - 53 * \<bar>v\<bar>\<close> away from the value \<open>v\<close> it
  rounds, and it is \<open>v\<close> rounded exactly to 3 decimals unless \<open>v * 1000\<close> lies
  within \<open>2 ^ - 53 * \<bar>v * 1000\<bar>\<close> of the middle between two integers.

  As the claim states it (the number shown is the float rounded to 3 decimals) it does
  not hold on every input: for the double nearest to 0.8145, which lies above 0.8145
  and is nearer to 0.815 than to 0.814, the product with 1000 is 814.5 in double
  precision and the helper shows 0.814.
\<close>

theorem print_results_trial_line_np_round:
  assumes "length out < k"
    and "k < length (print_results np_round str_float strp r out)"
  shows "(let i = k - length out - 1;
              mean = mean_test_score (cv_results r) ! i;
              band = std_test_score (cv_results r) ! i * 2
          in print_results np_round str_float strp r out ! k =
               str_float (np_round mean 3) @ '' (+/-'' @ str_float (np_round band 3)
               @ '') for '' @ strp (params (cv_results r) ! i)
             \<and> np_round mean 3 * 1000 \<in> \<int>
             \<and> np_round band 3 * 1000 \<in> \<int>
             \<and> \<bar>np_round mean 3 - mean\<bar> \<le> 1 / 2000 + \<bar>mean\<bar> / 2 ^ 53
             \<and> \<bar>np_round band 3 - band\<bar> \<le> 1 / 2000 + \<bar>band\<bar> / 2 ^ 53
             \<and> (\<bar>mean * 1000\<bar> / 2 ^ 53 < \<bar>frac (mean * 1000) - 1 / 2\<bar> \<longrightarrow>
                  np_round mean 3 = py_round mean 3)
             \<and> (\<bar>band * 1000\<bar> / 2 ^ 53 < \<bar>frac (band * 1000) - 1 / 2\<bar> \<longrightarrow>
                  np_round band 3 = py_round band 3))"
proof -
  define i where "i = k - length out - 1"
  define mean where "mean = mean_test_score (cv_results r) ! i"
  define band where "band = std_test_score (cv_results r) ! i * 2"
  have k: "k = length out + 1 + i"
    using assms(1) by (simp add: i_def)
  have "i < min (length (mean_test_score (cv_results r)))
             (min (length (std_test_score (cv_results r))) (length (params (cv_results r))))"
    using assms(2) unfolding k length_print_results by simp
  then have "print_results np_round str_float strp r out ! (length out + 1 + i) =
      trial_line np_round str_float strp (mean_test_score (cv_results r) ! i)
        (std_test_score (cv_results r) ! i) (params (cv_results r) ! i)"
    by (intro nth_print_results_trial) simp_all
  then have line: "print_results np_round str_float strp r out ! k =
               str_float (np_round mean 3) @ '' (+/-'' @ str_float (np_round band 3)
               @ '') for '' @ strp (params (cv_results r) ! i)"
    unfolding k by (simp add: trial_line_def mean_def band_def)
  have dec: "np_round mean 3 * 1000 \<in> \<int>" "np_round band 3 * 1000 \<in> \<int>"
    using np_round_decimals [of mean 3] np_round_decimals [of band 3] by simp_all
  have near: "\<bar>np_round mean 3 - mean\<bar> \<le> 1 / 2000 + \<bar>mean\<bar> / 2 ^ 53"
    "\<bar>np_round band 3 - band\<bar> \<le> 1 / 2000 + \<bar>band\<bar> / 2 ^ 53"
    using np_round_error [of mean 3] np_round_error [of band 3] by simp_all
  have exact: "np_round v 3 = py_round v 3"
    if "\<bar>v * 1000\<bar> / 2 ^ 53 < \<bar>frac (v * 1000) - 1 / 2\<bar>" for v
    using np_round_exact [of v 3] that by simp
  from line dec near exact show ?thesis
    unfolding Let_def i_def [symmetric] mean_def [symmetric] band_def [symmetric]
    by blast
qed

theorem print_results_trial_line_np_round_witness:
  "length ([] :: stdout) < 1
   \<and> 1 < length (print_results np_round str_float str_dict two_trials [])
   \<and> mean_test_score (cv_results two_trials) ! 0 = 7438529721611943 / 9007199254740992
   \<and> std_test_score (cv_results two_trials) ! 0 * 2 = 371997329220803 / 4503599627370496
   \<and> print_results np_round str_float str_dict two_trials [] ! 1 =
       ''0.826 (+/-0.083) for {'max_depth': 2}''
   \<and> \<bar>826 / 1000 - 7438529721611943 / 9007199254740992\<bar> < (1 / 2000 :: rat)
   \<and> \<bar>83 / 1000 - 371997329220803 / 4503599627370496\<bar> < (1 / 2000 :: rat)
   \<and> py_round (7438529721611943 / 9007199254740992) 3 = 826 / 1000
   \<and> py_round (371997329220803 / 4503599627370496) 3 = 83 / 1000"
proof -
  have l: "length ([] :: stdout) < 1" by simp
  have n: "1 < length (print_results np_round str_float str_dict two_trials [])"
    by (simp add: length_print_results two_trials_def)
  have i: "1 - length ([] :: stdout) - 1 = 0" by simp
  have m: "mean_test_score (cv_results two_trials) ! 0 = 7438529721611943 / 9007199254740992"
    by (simp add: two_trials_def)
  have b: "std_test_score (cv_results two_trials) ! 0 * 2 = 371997329220803 / 4503599627370496"
    by (simp add: two_trials_def)
  have p: "str_dict (params (cv_results two_trials) ! 0) = ''{'max_depth': 2}''"
    by code_simp
  have rm: "np_round (7438529721611943 / 9007199254740992) 3 = 826 / 1000"
    by code_simp
  have rb: "np_round (371997329220803 / 4503599627370496) 3 = 83 / 1000"
    by code_simp
  have sm: "str_float (826 / 1000) = ''0.826''" and sb: "str_float (83 / 1000) = ''0.083''"
    by code_simp+
  have tm: "\<bar>7438529721611943 / 9007199254740992 * 1000\<bar> / 2 ^ 53
              < \<bar>frac (7438529721611943 / 9007199254740992 * 1000 :: rat) - 1 / 2\<bar>"
    by code_simp
  have tb: "\<bar>371997329220803 / 4503599627370496 * 1000\<bar> / 2 ^ 53
              < \<bar>frac (371997329220803 / 4503599627370496 * 1000 :: rat) - 1 / 2\<bar>"
    by code_simp
  note w = print_results_trial_line_np_round [OF l n, unfolded Let_def i m b]
  from w have line: "print_results np_round str_float str_dict two_trials [] ! 1 =
       str_float (np_round (7438529721611943 / 9007199254740992) 3) @ '' (+/-''
       @ str_float (np_round (371997329220803 / 4503599627370496) 3)
       @ '') for '' @ str_dict (params (cv_results two_trials) ! 0)"
    by blast
  from w tm have em: "np_round (7438529721611943 / 9007199254740992) 3 =
      py_round (7438529721611943 / 9007199254740992) 3"
    by blast
  from w tb have eb: "np_round (371997329220803 / 4503599627370496) 3 =
      py_round (371997329220803 / 4503599627370496) 3"
    by blast
  have printed: "print_results np_round str_float str_dict two_trials [] ! 1 =
       ''0.826 (+/-0.083) for {'max_depth': 2}''"
    unfolding line rm rb sm sb p by simp
  have dm: "\<bar>826 / 1000 - 7438529721611943 / 9007199254740992\<bar> < (1 / 2000 :: rat)"
    and db: "\<bar>83 / 1000 - 371997329220803 / 4503599627370496\<bar> < (1 / 2000 :: rat)"
    by simp_all
  from l n m b printed dm db em [unfolded rm, symmetric] eb [unfolded rb, symmetric]
  show ?thesis by blast
qed

theorem print_results_exact_rounding_counterexample:
  "mean_test_score (cv_results two_trials) ! 1 = 3668181896493269 / 4503599627370496
   \<and> print_results np_round str_float str_dict two_trials [] ! 2 =
       ''0.814 (+/-0.125) for {'max_depth': 4}''
   \<and> str_float (py_round (3668181896493269 / 4503599627370496) 3) = ''0.815''
   \<and> \<bar>815 / 1000 - 3668181896493269 / 4503599627370496\<bar>
       < \<bar>814 / 1000 - (3668181896493269 / 4503599627370496 :: rat)\<bar>"
proof -
  have m: "mean_test_score (cv_results two_trials) ! 1 = 3668181896493269 / 4503599627370496"
    by (simp add: two_trials_def)
  have lens: "1 < length (mean_test_score (cv_results two_trials))"
    "1 < length (std_test_score (cv_results two_trials))"
    "1 < length (params (cv_results two_trials))"
    by (simp_all add: two_trials_def)
  have "trial_line np_round str_float str_dict (mean_test_score (cv_results two_trials) ! 1)
          (std_test_score (cv_results two_trials) ! 1) (params (cv_results two_trials) ! 1) =
        ''0.814 (+/-0.125) for {'max_depth': 4}''"
    by code_simp
  moreover have "length ([] :: stdout) + 1 + 1 = 2"
    by simp
  ultimately have shown: "print_results np_round str_float str_dict two_trials [] ! 2 =
       ''0.814 (+/-0.125) for {'max_depth': 4}''"
    using nth_print_results_trial [OF lens, of np_round str_float str_dict "[]"]
    by (simp only:)
  have exact: "str_float (py_round (3668181896493269 / 4503599627370496) 3) = ''0.815''"
    by code_simp
  have nearer: "\<bar>815 / 1000 - 3668181896493269 / 4503599627370496\<bar>
       < \<bar>814 / 1000 - (3668181896493269 / 4503599627370496 :: rat)\<bar>"
    by simp
  from m shown exact nearer show ?thesis by blast
qed

text \<open>
  C4. \<open>print_results\<close> prints the trial lines in the order of the result's list of
  configurations (the order in which the grid was enumerated): of two configurations,
  the one enumerated earlier is printed earlier, whatever the scores. The table is not
  sorted by score and the best configuration need not come first: in the run the
  random-forest notebook recorded, the first trial line is the one of
  \<open>{'max_depth': 2, 'n_estimators': 5}\<close> with mean 0.805, while the best configuration,
  \<open>{'max_depth': 4, 'n_estimators': 250}\<close>, stands on the sixth with the higher mean
  0.826.
\<close>

theorem print_results_enumeration_order:
  "(\<forall>i j. i < j \<and> j < length (params (cv_results r))
        \<and> length (mean_test_score (cv_results r)) = length (params (cv_results r))
        \<and> length (std_test_score (cv_results r)) = length (params (cv_results r)) \<longrightarrow>
        print_results rnd strs strp r out ! (length out + 1 + i) =
          trial_line rnd strs strp (mean_test_score (cv_results r) ! i)
            (std_test_score (cv_results r) ! i) (params (cv_results r) ! i)
        \<and> print_results rnd strs strp r out ! (length out + 1 + j) =
          trial_line rnd strs strp (mean_test_score (cv_results r) ! j)
            (std_test_score (cv_results r) ! j) (params (cv_results r) ! j))
   \<and> print_results py_round str_float str_dict rf_cv [] ! 0 =
       ''Best params: {'max_depth': 4, 'n_estimators': 250}'' @ [CHR 0x0A]
   \<and> print_results py_round str_float str_dict rf_cv [] ! 1 =
       ''0.805 (+/-0.146) for {'max_depth': 2, 'n_estimators': 5}''
   \<and> print_results py_round str_float str_dict rf_cv [] ! 6 =
       ''0.826 (+/-0.104) for {'max_depth': 4, 'n_estimators': 250}''
   \<and> mean_test_score (cv_results rf_cv) ! 0 < mean_test_score (cv_results rf_cv) ! 5
   \<and> params (cv_results rf_cv) ! 0 \<noteq> best_params rf_cv
   \<and> params (cv_results rf_cv) ! 5 = best_params rf_cv"
proof -
  have order: "print_results rnd strs strp r out ! (length out + 1 + i) =
          trial_line rnd strs strp (mean_test_score (cv_results r) ! i)
            (std_test_score (cv_results r) ! i) (params (cv_results r) ! i)
        \<and> print_results rnd strs strp r out ! (length out + 1 + j) =
          trial_line rnd strs strp (mean_test_score (cv_results r) ! j)
            (std_test_score (cv_results r) ! j) (params (cv_results r) ! j)"
    if "i < j" and "j < length (params (cv_results r))"
      and "length (mean_test_score (cv_results r)) = length (params (cv_results r))"
      and "length (std_test_score (cv_results r)) = length (params (cv_results r))"
    for i j
  proof
    show "print_results rnd strs strp r out ! (length out + 1 + i) =
          trial_line rnd strs strp (mean_test_score (cv_results r) ! i)
            (std_test_score (cv_results r) ! i) (params (cv_results r) ! i)"
      using that by (intro nth_print_results_trial) simp_all
    show "print_results rnd strs strp r out ! (length out + 1 + j) =
          trial_line rnd strs strp (mean_test_score (cv_results r) ! j)
            (std_test_score (cv_results r) ! j) (params (cv_results r) ! j)"
      using that by (intro nth_print_results_trial) simp_all
  qed
  have h: "print_results py_round str_float str_dict rf_cv [] ! 0 =
       ''Best params: {'max_depth': 4, 'n_estimators': 250}'' @ [CHR 0x0A]"
    and t0: "print_results py_round str_float str_dict rf_cv [] ! 1 =
       ''0.805 (+/-0.146) for {'max_depth': 2, 'n_estimators': 5}''"
    and t5: "print_results py_round str_float str_dict rf_cv [] ! 6 =
       ''0.826 (+/-0.104) for {'max_depth': 4, 'n_estimators': 250}''"
    by (simp_all add: print_results_rf_cv)
  have m: "mean_test_score (cv_results rf_cv) ! 0 < mean_test_score (cv_results rf_cv) ! 5"
    by (simp add: rf_cv_def rf_means_def)
  have p0: "params (cv_results rf_cv) ! 0 \<noteq> best_params rf_cv"
    by (simp add: rf_cv_def rf_params_def)
  have p5: "params (cv_results rf_cv) ! 5 = best_params rf_cv"
    by (simp add: rf_cv_def rf_params_def)
  from order h t0 t5 m p0 p5 show ?thesis by blast
qed

theorem print_results_enumeration_order_witness:
  "(2::nat) < 4
   \<and> 4 < length (params (cv_results rf_cv))
   \<and> length (mean_test_score (cv_results rf_cv)) = length (params (cv_results rf_cv))
   \<and> length (std_test_score (cv_results rf_cv)) = length (params (cv_results rf_cv))
   \<and> print_results py_round str_float str_dict rf_cv [] ! 3 =
       trial_line py_round str_float str_dict (802 / 1000) (131 / 2000)
         [(''max_depth'', PyInt 2), (''n_estimators'', PyInt 250)]
   \<and> print_results py_round str_float str_dict rf_cv [] ! 5 =
       trial_line py_round str_float str_dict (817 / 1000) (83 / 2000)
         [(''max_depth'', PyInt 4), (''n_estimators'', PyInt 50)]"
proof -
  have ij: "(2::nat) < 4" by simp
  have j: "4 < length (params (cv_results rf_cv))"
    by (simp add: rf_cv_def rf_params_def)
  have m: "length (mean_test_score (cv_results rf_cv)) = length (params (cv_results rf_cv))"
    by (simp add: rf_cv_def rf_means_def rf_params_def)
  have s: "length (std_test_score (cv_results rf_cv)) = length (params (cv_results rf_cv))"
    by (simp add: rf_cv_def rf_stds_def rf_params_def)
  have v: "mean_test_score (cv_results rf_cv) ! 2 = 802 / 1000"
    "std_test_score (cv_results rf_cv) ! 2 = 131 / 2000"
    "params (cv_results rf_cv) ! 2 = [(''max_depth'', PyInt 2), (''n_estimators'', PyInt 250)]"
    "mean_test_score (cv_results rf_cv) ! 4 = 817 / 1000"
    "std_test_score (cv_results rf_cv) ! 4 = 83 / 2000"
    "params (cv_results rf_cv) ! 4 = [(''max_depth'', PyInt 4), (''n_estimators'', PyInt 50)]"
    by (simp_all add: rf_cv_def rf_means_def rf_stds_def rf_params_def)
  have i3: "length ([] :: stdout) + 1 + 2 = 3" and i5: "length ([] :: stdout) + 1 + 4 = 5"
    by simp_all
  from print_results_enumeration_order [of rf_cv py_round str_float str_dict "[]"]
  have "print_results py_round str_float str_dict rf_cv [] ! (length ([] :: stdout) + 1 + 2) =
          trial_line py_round str_float str_dict (mean_test_score (cv_results rf_cv) ! 2)
            (std_test_score (cv_results rf_cv) ! 2) (params (cv_results rf_cv) ! 2)
        \<and> print_results py_round str_float str_dict rf_cv [] ! (length ([] :: stdout) + 1 + 4) =
          trial_line py_round str_float str_dict (mean_test_score (cv_results rf_cv) ! 4)
            (std_test_score (cv_results rf_cv) ! 4) (params (cv_results rf_cv) ! 4)"
    using ij j m s by blast
  then show ?thesis
    unfolding i3 i5 v using ij j m s by blast
qed

text \<open>
  C10. When the three lists of a result differ in length, \<open>print_results\<close> still
  returns (the helper has no failing branch): after the best-configuration line it
  prints exactly as many trial lines as the shortest of the three lists has entries,
  and its output is the one it gives for the three lists cut to that length, so the
  entries beyond it are ignored.
\<close>

theorem print_results_unequal_lengths:
  assumes "\<not> (length (mean_test_score (cv_results r)) = length (std_test_score (cv_results r))
            \<and> length (std_test_score (cv_results r)) = length (params (cv_results r)))"
  shows "(let n = min (length (mean_test_score (cv_results r)))
                    (min (length (std_test_score (cv_results r))) (length (params (cv_results r))))
          in length (print_results rnd strs strp r out) = length out + 1 + n
             \<and> print_results rnd strs strp r out ! length out = best_line strp (best_params r)
             \<and> print_results rnd strs strp r out =
                 print_results rnd strs strp
                   (r\<lparr>cv_results :=
                        \<lparr>mean_test_score = take n (mean_test_score (cv_results r)),
                         std_test_score = take n (std_test_score (cv_results r)),
                         params = take n (params (cv_results r))\<rparr>\<rparr>) out)"
proof -
  define n where "n = min (length (mean_test_score (cv_results r)))
                    (min (length (std_test_score (cv_results r))) (length (params (cv_results r))))"
  have "take n (zip (mean_test_score (cv_results r))
                  (zip (std_test_score (cv_results r)) (params (cv_results r)))) =
        zip (mean_test_score (cv_results r))
          (zip (std_test_score (cv_results r)) (params (cv_results r)))"
    by (simp add: n_def)
  then have "zip (take n (mean_test_score (cv_results r)))
               (zip (take n (std_test_score (cv_results r))) (take n (params (cv_results r)))) =
             zip (mean_test_score (cv_results r))
               (zip (std_test_score (cv_results r)) (params (cv_results r)))"
    by (simp add: take_zip)
  then show ?thesis
    unfolding Let_def n_def [symmetric]
    by (simp add: length_print_results nth_print_results_header print_results_output n_def)
qed

theorem print_results_unequal_lengths_witness:
  "length [8 / 10, 7 / 10, 9 / 10 :: rat] \<noteq> length [1 / 100 :: rat]
   \<and> print_results py_round str_float str_dict
       \<lparr>best_params = [(''max_depth'', PyInt 4)], best_estimator = (),
        cv_results = \<lparr>mean_test_score = [8 / 10, 7 / 10, 9 / 10], std_test_score = [1 / 100],
                      params = [[(''max_depth'', PyInt 2)], [(''max_depth'', PyInt 4)]]\<rparr>\<rparr> [] =
     [''Best params: {'max_depth': 4}'' @ [CHR 0x0A], ''0.8 (+/-0.02) for {'max_depth': 2}'']
   \<and> print_results py_round str_float str_dict
       \<lparr>best_params = [(''max_depth'', PyInt 4)], best_estimator = (),
        cv_results = \<lparr>mean_test_score = [8 / 10], std_test_score = [1 / 100],
                      params = [[(''max_depth'', PyInt 2)]]\<rparr>\<rparr> [] =
     [''Best params: {'max_depth': 4}'' @ [CHR 0x0A], ''0.8 (+/-0.02) for {'max_depth': 2}'']"
proof -
  define r :: "(config, rat, unit) grid_search_cv" where
    "r = \<lparr>best_params = [(''max_depth'', PyInt 4)], best_estimator = (),
        cv_results = \<lparr>mean_test_score = [8 / 10, 7 / 10, 9 / 10], std_test_score = [1 / 100],
                      params = [[(''max_depth'', PyInt 2)], [(''max_depth'', PyInt 4)]]\<rparr>\<rparr>"
  have ne: "\<not> (length (mean_test_score (cv_results r)) = length (std_test_score (cv_results r))
            \<and> length (std_test_score (cv_results r)) = length (params (cv_results r)))"
    by (simp add: r_def)
  have cut: "print_results py_round str_float str_dict
       \<lparr>best_params = [(''max_depth'', PyInt 4)], best_estimator = (),
        cv_results = \<lparr>mean_test_score = [8 / 10], std_test_score = [1 / 100],
                      params = [[(''max_depth'', PyInt 2)]]\<rparr>\<rparr> [] =
     [''Best params: {'max_depth': 4}'' @ [CHR 0x0A], ''0.8 (+/-0.02) for {'max_depth': 2}'']"
    by code_simp
  have "print_results py_round str_float str_dict r [] =
     [''Best params: {'max_depth': 4}'' @ [CHR 0x0A], ''0.8 (+/-0.02) for {'max_depth': 2}'']"
    using print_results_unequal_lengths [OF ne, of py_round str_float str_dict "[]"] cut
    by (simp add: r_def)
  then show ?thesis
    using cut by (simp add: r_def)
qed

section \<open>Claims about the selection of the best configuration\<close>

text \<open>
  C1. For every result of the grid search, the configuration that \<open>print_results\<close>
  reports on its first line is one of the configurations of the trial lines, and its
  mean score is the maximum of the mean scores of all trial lines. The same holds for
  the means as displayed, since rounding is monotone. The trial lines themselves stay
  in enumeration order.
\<close>

theorem grid_search_best_has_max_mean:
  assumes "grid_search cv_score refit configs = Inr res"
  shows "\<exists>b<length configs.
           print_results rnd strs strp res out ! length out = best_line strp (configs ! b)
         \<and> print_results rnd strs strp res out ! (length out + 1 + b) =
             trial_line rnd strs strp (mean_test_score (cv_results res) ! b)
               (std_test_score (cv_results res) ! b) (configs ! b)
         \<and> length (print_results rnd strs strp res out) = length out + 1 + length configs
         \<and> mean_test_score (cv_results res) ! b = Max (set (mean_test_score (cv_results res)))
         \<and> (mono (\<lambda>x. rnd x 3) \<longrightarrow>
              rnd (mean_test_score (cv_results res) ! b) 3 =
                Max ((\<lambda>x. rnd x 3) ` set (mean_test_score (cv_results res))))"
proof -
  from grid_search_Inr [OF assms] obtain b where
    b: "best_index (map (fst \<circ> cv_score) configs) = Some b"
    and bp: "best_params res = configs ! b"
    and ms: "mean_test_score (cv_results res) = map (fst \<circ> cv_score) configs"
    and ss: "std_test_score (cv_results res) = map (snd \<circ> cv_score) configs"
    and ps: "params (cv_results res) = configs"
    by blast
  have len: "b < length configs"
    using best_index_Some(1) [OF b] by simp
  have mx: "mean_test_score (cv_results res) ! b = Max (set (mean_test_score (cv_results res)))"
    using best_index_Some(2) [OF b] by (simp add: ms)
  have header: "print_results rnd strs strp res out ! length out = best_line strp (configs ! b)"
    by (simp add: nth_print_results_header bp)
  have trial: "print_results rnd strs strp res out ! (length out + 1 + b) =
             trial_line rnd strs strp (mean_test_score (cv_results res) ! b)
               (std_test_score (cv_results res) ! b) (configs ! b)"
    using nth_print_results_trial [of b res rnd strs strp out] len by (simp add: ms ss ps)
  have count: "length (print_results rnd strs strp res out) = length out + 1 + length configs"
    by (simp add: length_print_results ms ss ps)
  have shown: "rnd (mean_test_score (cv_results res) ! b) 3 =
                Max ((\<lambda>x. rnd x 3) ` set (mean_test_score (cv_results res)))"
    if "mono (\<lambda>x. rnd x 3)"
  proof -
    have "set (mean_test_score (cv_results res)) \<noteq> {}"
      using len by (auto simp: ms)
    then show ?thesis
      unfolding mx using that by (intro mono_Max_commute) simp_all
  qed
  from len header trial count mx shown show ?thesis by blast
qed

theorem grid_search_best_has_max_mean_witness:
  "grid_search rf_score (\<lambda>c. ()) rf_params = Inr rf_cv
   \<and> mono (\<lambda>x. py_round x 3)
   \<and> print_results py_round str_float str_dict rf_cv [] ! 0 =
       ''Best params: {'max_depth': 4, 'n_estimators': 250}'' @ [CHR 0x0A]
   \<and> print_results py_round str_float str_dict rf_cv [] ! 6 =
       ''0.826 (+/-0.104) for {'max_depth': 4, 'n_estimators': 250}''
   \<and> mean_test_score (cv_results rf_cv) ! 5 = 826 / 1000
   \<and> Max (set (mean_test_score (cv_results rf_cv))) = 826 / 1000
   \<and> Max ((\<lambda>x. py_round x 3) ` set (mean_test_score (cv_results rf_cv))) = 826 / 1000"
proof -
  have g: "grid_search rf_score (\<lambda>c. ()) rf_params = Inr rf_cv"
    by code_simp
  have mn: "mono (\<lambda>x. py_round x 3)"
    by (simp add: mono_def py_round_mono)
  have m5: "mean_test_score (cv_results rf_cv) ! 5 = 826 / 1000"
    by (simp add: rf_cv_def rf_means_def)
  have r5: "py_round (826 / 1000) 3 = 826 / 1000"
    by code_simp
  from grid_search_best_has_max_mean [OF g, of py_round str_float str_dict "[]"] mn
  obtain b where b: "b < length rf_params"
    and h: "print_results py_round str_float str_dict rf_cv [] ! length ([] :: stdout) =
              best_line str_dict (rf_params ! b)"
    and mx: "mean_test_score (cv_results rf_cv) ! b = Max (set (mean_test_score (cv_results rf_cv)))"
    and sh: "py_round (mean_test_score (cv_results rf_cv) ! b) 3 =
                Max ((\<lambda>x. py_round x 3) ` set (mean_test_score (cv_results rf_cv)))"
    by blast
  have all: "\<forall>x\<in>set (mean_test_score (cv_results rf_cv)). x \<le> 826 / 1000"
    by (simp add: rf_cv_def rf_means_def)
  have "mean_test_score (cv_results rf_cv) ! 5 \<in> set (mean_test_score (cv_results rf_cv))"
    by (simp add: rf_cv_def rf_means_def)
  with all have max: "Max (set (mean_test_score (cv_results rf_cv))) = 826 / 1000"
    unfolding m5 by (intro Max_eqI) auto
  have head: "print_results py_round str_float str_dict rf_cv [] ! 0 =
       ''Best params: {'max_depth': 4, 'n_estimators': 250}'' @ [CHR 0x0A]"
  proof -
    have "best_line str_dict (best_params rf_cv) =
        ''Best params: {'max_depth': 4, 'n_estimators': 250}'' @ [CHR 0x0A]"
      by code_simp
    then show ?thesis
      using nth_print_results_header [of py_round str_float str_dict rf_cv "[]"] by simp
  qed
  have six: "print_results py_round str_float str_dict rf_cv [] ! 6 =
       ''0.826 (+/-0.104) for {'max_depth': 4, 'n_estimators': 250}''"
  proof -
    have "trial_line py_round str_float str_dict (mean_test_score (cv_results rf_cv) ! 5)
            (std_test_score (cv_results rf_cv) ! 5) (params (cv_results rf_cv) ! 5) =
          ''0.826 (+/-0.104) for {'max_depth': 4, 'n_estimators': 250}''"
      by code_simp
    then show ?thesis
      using nth_print_results_trial [of 5 rf_cv py_round str_float str_dict "[]"]
      by (simp add: rf_cv_def rf_means_def rf_stds_def rf_params_def)
  qed
  from sh have "Max ((\<lambda>x. py_round x 3) ` set (mean_test_score (cv_results rf_cv))) = 826 / 1000"
    unfolding mx max r5 by simp
  with g mn head six m5 max show ?thesis by simp
qed

text \<open>
  C5. When two (or more) configurations attain the maximum mean score, the grid search
  selects the one enumerated first: the selected configuration stands at an index not
  after the earlier of the two, it attains the maximum, and no configuration before it
  does. Its estimator is the one refitted with it.
\<close>

theorem grid_search_first_seen_wins:
  assumes "grid_search cv_score refit configs = Inr res"
    and "i < j"
    and "j < length configs"
    and "mean_test_score (cv_results res) ! i = Max (set (mean_test_score (cv_results res)))"
    and "mean_test_score (cv_results res) ! j = Max (set (mean_test_score (cv_results res)))"
  shows "\<exists>b\<le>i. b < j
           \<and> best_params res = configs ! b
           \<and> best_estimator res = refit (configs ! b)
           \<and> mean_test_score (cv_results res) ! b = Max (set (mean_test_score (cv_results res)))
           \<and> (\<forall>k<b. mean_test_score (cv_results res) ! k
                       < Max (set (mean_test_score (cv_results res))))"
proof -
  from grid_search_Inr [OF assms(1)] obtain b where
    b: "best_index (map (fst \<circ> cv_score) configs) = Some b"
    and bp: "best_params res = configs ! b"
    and be: "best_estimator res = refit (configs ! b)"
    and ms: "mean_test_score (cv_results res) = map (fst \<circ> cv_score) configs"
    by blast
  note sel = best_index_Some [OF b, folded ms]
  have "b \<le> i"
  proof (rule ccontr)
    assume "\<not> b \<le> i"
    then have "mean_test_score (cv_results res) ! i < mean_test_score (cv_results res) ! b"
      using sel(3) [of i] by simp
    then show False
      using assms(4) sel(2) by simp
  qed
  moreover have "\<forall>k<b. mean_test_score (cv_results res) ! k
                       < Max (set (mean_test_score (cv_results res)))"
    using sel(2,3) by simp
  ultimately show ?thesis
    using assms(2) bp be sel(2) by (intro exI [of _ b]) simp
qed

theorem grid_search_first_seen_wins_witness:
  "(2::nat) < 3
   \<and> 3 < length gb_configs
   \<and> map (fst \<circ> gb_score) gb_configs =
       [811 / 1000, 830 / 1000, 841 / 1000, 841 / 1000, 826 / 1000, 809 / 1000]
   \<and> Max (set (map (fst \<circ> gb_score) gb_configs)) = 841 / 1000
   \<and> (\<exists>res. grid_search gb_score (\<lambda>c. c) gb_configs = Inr res
         \<and> mean_test_score (cv_results res) = map (fst \<circ> gb_score) gb_configs
         \<and> best_params res = (1 / 100, 3, 500)
         \<and> best_estimator res = best_params res)"
proof -
  have ij: "(2::nat) < 3" by simp
  have len: "3 < length gb_configs"
    by (simp add: gb_configs_def)
  have gm: "map (fst \<circ> gb_score) gb_configs =
       [811 / 1000, 830 / 1000, 841 / 1000, 841 / 1000, 826 / 1000, 809 / 1000]"
    by code_simp
  have mx: "Max (set (map (fst \<circ> gb_score) gb_configs)) = 841 / 1000"
    unfolding gm by simp
  have c2: "gb_configs ! 2 = (1 / 100, 3, 500)"
    by (simp add: gb_configs_def)
  have "gb_configs \<noteq> []"
    using len by auto
  then obtain res where g: "grid_search gb_score (\<lambda>c. c) gb_configs = Inr res"
    using grid_search_Inl [of gb_score "\<lambda>c. c" gb_configs]
    by (cases "grid_search gb_score (\<lambda>c. c) gb_configs") auto
  from grid_search_Inr [OF g]
  have ms: "mean_test_score (cv_results res) = map (fst \<circ> gb_score) gb_configs"
    by blast
  have m2: "mean_test_score (cv_results res) ! 2 = Max (set (mean_test_score (cv_results res)))"
    and m3: "mean_test_score (cv_results res) ! 3 = Max (set (mean_test_score (cv_results res)))"
    unfolding ms mx by (simp_all add: gm)
  from grid_search_first_seen_wins [OF g ij len m2 m3]
  obtain b where b: "b \<le> 2"
    and bp: "best_params res = gb_configs ! b"
    and be: "best_estimator res = gb_configs ! b"
    and bm: "mean_test_score (cv_results res) ! b = Max (set (mean_test_score (cv_results res)))"
    by blast
  from b have "b = 0 \<or> b = 1 \<or> b = 2" by linarith
  with bm have "b = 2"
    unfolding ms mx by (auto simp: gm)
  with bp be c2 g ms ij len gm mx show ?thesis by simp
qed

end
